theory Spec2Isabelle
  imports Main
begin

section \<open>Shared values\<close>

text \<open>
  A Python \<open>datetime\<close> is modelled by its distance from the epoch in microseconds, the
  resolution of the type. \<open>x.timestamp()\<close> is that distance in seconds as a float; the
  model compares and truncates the exact value, which is what the float computation
  yields for every date within two centuries of the epoch (the spacing of doubles there
  is below one microsecond). The process is taken to run in UTC, so that a naive
  \<open>utcnow()\<close> and the timezone-aware values of the collaborators are on one scale.
\<close>

type_synonym datetime = int

text \<open>Exceptions, each with the text or name it carries.\<close>

datatype error =
    AttributeError string
  | KeyError string
  | ValueError string
  | FileNotFoundError string
  | ServiceError string

text \<open>\<open>int(x.timestamp())\<close>: \<open>int\<close> on a float truncates towards zero.\<close>

definition int_timestamp :: "datetime \<Rightarrow> int" where
  "int_timestamp t = (if 0 \<le> t then t div 1000000 else - ((- t) div 1000000))"

text \<open>\<open>timedelta(minutes=5)\<close> in microseconds.\<close>

definition five_minutes :: int where
  "five_minutes = 5 * 60 * 1000000"

section \<open>bq-load-file: the watermark store\<close>

text \<open>
  The Datastore kind \<open>data-pipelines\<close>: one entity per job name, an entity being a
  dictionary from field names to values. \<open>puts\<close> records every
  \<open>DATASTORE_CLIENT.put\<close>, oldest first, so that "nothing was written" can be told
  from "the same value was written again". The calls to the store are taken to succeed.
\<close>

record 'v datastore =
  entities :: "string \<rightharpoonup> (string \<rightharpoonup> 'v)"
  puts :: "(string \<times> (string \<rightharpoonup> 'v)) list"

definition get_entity :: "'v datastore \<Rightarrow> string \<Rightarrow> (string \<rightharpoonup> 'v) option" where
  "get_entity ds job_name = entities ds job_name"

definition get_last_modified_time :: "(string \<rightharpoonup> 'v) option \<Rightarrow> 'v option" where
  "get_last_modified_time entity =
     (case entity of None \<Rightarrow> None | Some e \<Rightarrow> e ''last_modified_time'')"

definition set_entity_item ::
  "string \<Rightarrow> string \<Rightarrow> 'v \<Rightarrow> 'v datastore \<Rightarrow> bool \<times> 'v datastore" where
  "set_entity_item job_name key val ds =
     (let entity = (case get_entity ds job_name of None \<Rightarrow> Map.empty | Some e \<Rightarrow> e);
          entity' = entity(key \<mapsto> val)
      in (True, ds\<lparr>entities := (entities ds)(job_name \<mapsto> entity'),
                    puts := puts ds @ [(job_name, entity')]\<rparr>))"

section \<open>bq-load-file: collaborators\<close>

text \<open>
  The job's entry of \<open>config.json\<close>. The five keys the code subscripts are \<open>None\<close>
  when the key is missing (a \<open>KeyError\<close>); \<open>schema_file_location\<close> may also be present
  and null. The keys read with \<open>.get\<close> are \<open>None\<close> when missing or null
  (\<open>extra_kwargs\<close>: when missing, its default being the empty dictionary).
  \<open>hive_partitioning\<close> and the values of \<open>extra_kwargs\<close> are passed through unread
  and kept as their JSON text.
\<close>

record config =
  cfg_blob_prefix :: "string option"
  cfg_schema_file_location :: "string option option"
  cfg_storage_bucket :: "string option"
  cfg_destination_table_id :: "string option"
  cfg_file_type :: "string option"
  cfg_hive_partitioning :: "string option"
  cfg_create_behavior :: "string option"
  cfg_write_behavior :: "string option"
  cfg_extra_kwargs :: "(string \<times> string) list option"

text \<open>What \<open>bucket.get_blob\<close> followed by download and parsing gives.\<close>

datatype 'a fetched =
    NoBlob
  | DownloadFails error
  | ParseFails error
  | Content 'a

record blob =
  name :: string
  updated :: datetime

text \<open>\<open>blobs_to_load\<close> is a \<open>str\<close> in backfill mode and a \<open>list\<close> otherwise.\<close>

datatype uris = Pattern string | Files "string list"

fun len :: "uris \<Rightarrow> nat" where
  "len (Pattern s) = length s"
| "len (Files xs) = length xs"

type_synonym schema = string

datatype source_format = NEWLINE_DELIMITED_JSON | CSV

text \<open>The keyword arguments of \<open>load_files_to_biquery\<close>.\<close>

record load_args =
  list_file_names :: uris
  schema :: "schema option"
  file_type :: string
  destination_table_id :: string
  hive_partitioning :: "string option"
  create_behavior :: "string option"
  write_behavior :: "string option"
  kwargs :: "(string \<times> string) list"

text \<open>The request \<open>client.load_table_from_uri\<close> sends.\<close>

record bq_job =
  bq_source_uris :: uris
  bq_destination :: string
  bq_location :: string
  bq_source_format :: source_format
  bq_schema :: "schema option"
  bq_create_disposition :: "string option"
  bq_write_disposition :: "string option"
  bq_hive_partitioning :: "string option"
  bq_kwargs :: "(string \<times> string) list"

text \<open>\<open>output_rows\<close> and \<open>input_files\<close> of a finished load job.\<close>

type_synonym load_job_result = "nat \<times> nat"

text \<open>
  Everything outside the function: the two readings of the clock (line 47 and line 112),
  the configuration and schema documents of the global bucket, the attribute names of
  the two disposition classes of the BigQuery library, the object listing, and the
  outcome of a load job.
\<close>

record env =
  utcnow_at_start :: datetime
  utcnow_at_stamp :: datetime
  config_json :: "(string \<rightharpoonup> config) fetched"
  schema_json :: "string \<Rightarrow> schema fetched"
  CreateDisposition :: "string \<Rightarrow> bool"
  WriteDisposition :: "string \<Rightarrow> bool"
  storage_list_blobs :: "string \<Rightarrow> string \<Rightarrow> error + blob list"
  load_table_from_uri :: "bq_job \<Rightarrow> error + load_job_result"

text \<open>
  The state a run can change: the watermark store, and the record of the invocations of
  the warehouse loader, oldest first.
\<close>

record world =
  db :: "datetime datastore"
  load_calls :: "load_args list"

definition get_config :: "env \<Rightarrow> string \<Rightarrow> error + config" where
  "get_config env job_name =
     (case config_json env of
        NoBlob \<Rightarrow> Inl (FileNotFoundError ''Config file does not exist.'')
      | DownloadFails e \<Rightarrow> Inl e
      | ParseFails e \<Rightarrow> Inl e
      | Content doc \<Rightarrow>
          (case doc job_name of
             None \<Rightarrow> Inl (ValueError (job_name @ '' was not found in the config file.''))
           | Some return_json \<Rightarrow> Inr return_json))"

definition get_schema :: "env \<Rightarrow> string \<Rightarrow> error + schema" where
  "get_schema env schema_file_location =
     (case schema_json env (''bq-schemas/'' @ schema_file_location) of
        NoBlob \<Rightarrow> Inl (FileNotFoundError ''Schema file does not exist.'')
      | DownloadFails e \<Rightarrow> Inl e
      | ParseFails e \<Rightarrow> Inl e
      | Content return_schema \<Rightarrow> Inr return_schema)"

text \<open>
  The loop of \<open>list_blobs\<close>, with its accumulator. \<open>tsAfter.timestamp()\<close> on \<open>None\<close>
  raises at the first object.
\<close>

fun list_blobs_loop ::
  "string \<Rightarrow> datetime option \<Rightarrow> blob list \<Rightarrow> string list \<Rightarrow> error + string list" where
  "list_blobs_loop bucket_name tsAfter [] list_of_blobs = Inr list_of_blobs"
| "list_blobs_loop bucket_name tsAfter (b # blobs) list_of_blobs =
     (case tsAfter of
        None \<Rightarrow> Inl (AttributeError ''timestamp'')
      | Some ts \<Rightarrow>
          list_blobs_loop bucket_name tsAfter blobs
            (if int_timestamp (updated b) > int_timestamp ts
             then list_of_blobs @ [''gs://'' @ bucket_name @ ''/'' @ name b]
             else list_of_blobs))"

definition list_blobs ::
  "env \<Rightarrow> string \<Rightarrow> string \<Rightarrow> datetime option \<Rightarrow> error + string list" where
  "list_blobs env bucket_name prefix tsAfter =
     (case storage_list_blobs env bucket_name prefix of
        Inl e \<Rightarrow> Inl e
      | Inr blobs \<Rightarrow> list_blobs_loop bucket_name tsAfter blobs [])"

definition submit_load :: "env \<Rightarrow> source_format \<Rightarrow> load_args \<Rightarrow> error + load_job_result" where
  "submit_load env fmt a =
     load_table_from_uri env
       \<lparr>bq_source_uris = list_file_names a,
        bq_destination = destination_table_id a,
        bq_location = ''US'',
        bq_source_format = fmt,
        bq_schema = schema a,
        bq_create_disposition = create_behavior a,
        bq_write_disposition = write_behavior a,
        bq_hive_partitioning = hive_partitioning a,
        bq_kwargs = kwargs a\<rparr>"

definition load_files_to_biquery :: "env \<Rightarrow> load_args \<Rightarrow> error + load_job_result" where
  "load_files_to_biquery env a =
     (if file_type a = ''json'' then submit_load env NEWLINE_DELIMITED_JSON a
      else if file_type a = ''csv'' then submit_load env CSV a
      else Inl (ValueError ''Please enter a valid file_type''))"

section \<open>bq-load-file: the orchestrator\<close>

text \<open>
  The request body as \<open>get_json(silent=True)\<close> gives it: \<open>None\<close> when the body is not
  JSON, else the two documented keys, each \<open>None\<close> when missing.
\<close>

record request =
  job_name :: "string option"
  backfill :: "bool option"

text \<open>What the function returns: \<open>None\<close>, a string, or an exception object.\<close>

datatype response = RNone | RStr string | RErr error

text \<open>The local variables lines 55 to 63 read from the configuration.\<close>

record job =
  job_blob_prefix :: string
  job_schema_file_location :: "string option"
  job_storage_bucket :: string
  job_destination_table_id :: string
  job_file_type :: string
  job_hive_partitioning :: "string option"
  job_create_behavior :: "string option"
  job_write_behavior :: "string option"
  job_extra_kwargs :: "(string \<times> string) list"

text \<open>
  \<open>start_file_load\<close> is embedded in three consecutive blocks. An exception that leaves
  the function is \<open>Inl\<close>, a returned value \<open>Inr\<close>. Logging is left out.

  Lines 49 to 83: fetch the configuration, read its keys, validate the two
  dispositions. \<open>getattr(CreateDisposition, x)\<close> succeeds exactly when \<open>x\<close> is an
  attribute of the class; otherwise the \<open>AttributeError\<close> is caught and returned, not
  raised. The result is either the way the function ends here or the locals.
\<close>

definition resolve_job :: "env \<Rightarrow> string \<Rightarrow> (error + response) + job" where
  "resolve_job env jn =
    (case get_config env jn of
       Inl e \<Rightarrow> Inl (Inl e)
     | Inr config \<Rightarrow>
    (case cfg_blob_prefix config of
       None \<Rightarrow> Inl (Inl (KeyError ''blob_prefix''))
     | Some blob_prefix \<Rightarrow>
    (case cfg_schema_file_location config of
       None \<Rightarrow> Inl (Inl (KeyError ''schema_file_location''))
     | Some schema_file_location \<Rightarrow>
    (case cfg_storage_bucket config of
       None \<Rightarrow> Inl (Inl (KeyError ''storage_bucket''))
     | Some storage_bucket \<Rightarrow>
    (case cfg_destination_table_id config of
       None \<Rightarrow> Inl (Inl (KeyError ''destination_table_id''))
     | Some destination_table \<Rightarrow>
    (case cfg_file_type config of
       None \<Rightarrow> Inl (Inl (KeyError ''file_type''))
     | Some ftype \<Rightarrow>
     if cfg_create_behavior config \<noteq> None
        \<and> \<not> CreateDisposition env (the (cfg_create_behavior config))
     then Inl (Inr (RErr (AttributeError (the (cfg_create_behavior config)))))
     else if cfg_write_behavior config \<noteq> None
        \<and> \<not> WriteDisposition env (the (cfg_write_behavior config))
     then Inl (Inr (RErr (AttributeError (the (cfg_write_behavior config)))))
     else Inr \<lparr>job_blob_prefix = blob_prefix,
               job_schema_file_location = schema_file_location,
               job_storage_bucket = storage_bucket,
               job_destination_table_id = destination_table,
               job_file_type = ftype,
               job_hive_partitioning = cfg_hive_partitioning config,
               job_create_behavior = cfg_create_behavior config,
               job_write_behavior = cfg_write_behavior config,
               job_extra_kwargs =
                 (case cfg_extra_kwargs config of None \<Rightarrow> [] | Some kw \<Rightarrow> kw)\<rparr>))))))"

text \<open>
  Lines 112 to 155: the run is accepted. The attempt is stamped with a second reading of
  the clock, the files are selected, and the loader is called inside the \<open>try\<close> whose
  handler returns \<open>None\<close>. The branch on \<open>backfill_flag is False\<close> after the load only
  logs, inside its own \<open>try\<close>, and is left out.
\<close>

definition accepted_run ::
  "env \<Rightarrow> string \<Rightarrow> job \<Rightarrow> datetime \<Rightarrow> datetime option \<Rightarrow> bool \<Rightarrow> world
     \<Rightarrow> (error + response) \<times> world" where
  "accepted_run env jn j current_time last_modified_time backfill_flag w =
    (let w1 = w\<lparr>db := snd (set_entity_item jn ''last_attempted_grab''
                               (utcnow_at_stamp env) (db w))\<rparr>
     in
    (case (if backfill_flag
           then Inr (Pattern (''gs://'' @ job_storage_bucket j @ ''/''
                                @ job_blob_prefix j @ ''*''))
           else map_sum id Files
                  (list_blobs env (job_storage_bucket j) (job_blob_prefix j)
                     last_modified_time)) of
       Inl e \<Rightarrow> (Inl e, w1)
     | Inr blobs_to_load \<Rightarrow>
     if len blobs_to_load = 0
     then (Inr (RStr (''There are no new blobs to load for '' @ jn)), w1)
     else
    (case (case job_schema_file_location j of
             None \<Rightarrow> Inr None
           | Some loc \<Rightarrow> if loc = [] then Inr None
                         else map_sum id Some (get_schema env loc)) of
       Inl e \<Rightarrow> (Inl e, w1)
     | Inr sch \<Rightarrow>
    (let args = \<lparr>list_file_names = blobs_to_load,
                 schema = sch,
                 file_type = job_file_type j,
                 destination_table_id = job_destination_table_id j,
                 hive_partitioning = job_hive_partitioning j,
                 create_behavior = job_create_behavior j,
                 write_behavior = job_write_behavior j,
                 kwargs = job_extra_kwargs j\<rparr>;
         w2 = w1\<lparr>load_calls := load_calls w1 @ [args]\<rparr>
     in
    (case load_files_to_biquery env args of
       Inl e \<Rightarrow> (Inr RNone, w2)
     | Inr load_job_result \<Rightarrow>
         (Inr (RStr (''Success for '' @ jn)),
          w2\<lparr>db := snd (set_entity_item jn ''last_modified_time''
                            current_time (db w2))\<rparr>))))))"

text \<open>
  The function from its first line: the request, the clock, the configuration
  (\<open>resolve_job\<close>), then lines 85 to 110, the persisted state and the decision between
  rejecting, the requested mode and a forced backfill. A \<open>datetime\<close> is always truthy,
  so \<open>if last_modified_time and last_attempted_grab\<close> asks whether both are there; an
  empty entity is falsy, and has neither field.
\<close>

definition start_file_load ::
  "env \<Rightarrow> request option \<Rightarrow> world \<Rightarrow> (error + response) \<times> world" where
  "start_file_load env request_json w =
    (case request_json of
       None \<Rightarrow> (Inl (AttributeError ''get''), w)
     | Some rq \<Rightarrow>
    (case job_name rq of
       None \<Rightarrow> (Inr (RStr ''Please include job_name in request json.''), w)
     | Some jn \<Rightarrow>
    (let current_time = utcnow_at_start env in
    (case resolve_job env jn of
       Inl early \<Rightarrow> (early, w)
     | Inr j \<Rightarrow>
    (let entity = get_entity (db w) jn;
         last_attempted_grab =
           (case entity of None \<Rightarrow> None | Some e \<Rightarrow> e ''last_attempted_grab'');
         last_modified_time = get_last_modified_time entity
     in
     if last_modified_time \<noteq> None \<and> last_attempted_grab \<noteq> None
     then
       (if the last_attempted_grab > current_time - five_minutes
        then (Inr RNone, w)
        else accepted_run env jn j current_time last_modified_time
               (case backfill rq of None \<Rightarrow> False | Some b \<Rightarrow> b) w)
     else accepted_run env jn j current_time last_modified_time True w)))))"

text \<open>The persisted value of one field of one job, \<open>None\<close> when record or field is absent.\<close>

definition stored :: "world \<Rightarrow> string \<Rightarrow> string \<Rightarrow> datetime option" where
  "stored w jn field = (case get_entity (db w) jn of None \<Rightarrow> None | Some e \<Rightarrow> e field)"

section \<open>bq-start-load: the dispatcher\<close>

text \<open>
  A Cloud Tasks task as \<open>add_object_task_to_queue\<close> builds it. The body is the JSON
  object \<open>{"job_name": job_name}\<close>; the model keeps its one field rather than the
  encoded bytes.
\<close>

record task =
  http_method :: string
  url :: string
  content_type :: string
  authorization :: string
  body_job_name :: string
  schedule_time :: datetime

text \<open>
  The environment variables, the clock, and the two calls that can fail: minting the
  identity token and creating the task.
\<close>

record denv =
  PROJECT :: string
  QUEUE_LOCATION :: string
  QUEUE_NAME :: string
  CONFIG_JOB_NAMES :: string
  utcnow :: datetime
  fetch_id_token :: "string \<Rightarrow> error + string"
  create_task :: "string \<Rightarrow> task \<Rightarrow> error + string"

definition task_url :: "denv \<Rightarrow> string" where
  "task_url d = ''https://us-central1-'' @ PROJECT d @ ''.cloudfunctions.net/bq-load-file''"

definition queue_path :: "string \<Rightarrow> string \<Rightarrow> string \<Rightarrow> string" where
  "queue_path project loc queue =
     ''projects/'' @ project @ ''/locations/'' @ loc @ ''/queues/'' @ queue"

text \<open>
  \<open>str.strip()\<close> on the characters of ASCII that Python counts as whitespace (tab to
  carriage return, the four separators 28 to 31, and space).
\<close>

definition isspace :: "char \<Rightarrow> bool" where
  "isspace ch = (let n = (of_char ch :: nat) in (9 \<le> n \<and> n \<le> 13) \<or> (28 \<le> n \<and> n \<le> 32))"

definition strip :: "string \<Rightarrow> string" where
  "strip s = rev (dropWhile isspace (rev (dropWhile isspace s)))"

text \<open>
  \<open>PULL_DICT\<close>: the comprehension iterates over \<open>CONFIG_JOB_NAMES\<close>, which is the
  string \<open>os.environ\<close> gives, so \<open>pull\<close> is each of its characters in turn.
\<close>

definition PULL_DICT :: "denv \<Rightarrow> string list" where
  "PULL_DICT d = map (\<lambda>pull. strip [pull]) (CONFIG_JOB_NAMES d)"

text \<open>
  The queue is the list of tasks created, each with the queue path it was sent to.
  \<open>None\<close> is the early return for an empty name; an exception anywhere in the
  \<open>try\<close> gives the failure string.
\<close>

definition add_object_task_to_queue ::
  "denv \<Rightarrow> string \<Rightarrow> (string \<times> task) list \<Rightarrow> string option \<times> (string \<times> task) list" where
  "add_object_task_to_queue d jn queue =
     (if jn = [] then (None, queue)
      else
        (let parent = queue_path (PROJECT d) (QUEUE_LOCATION d) (QUEUE_NAME d) in
         case fetch_id_token d (task_url d) of
           Inl e \<Rightarrow> (Some (''Failure: Task not created for BQ Job - '' @ jn), queue)
         | Inr id_token \<Rightarrow>
             (let t = \<lparr>http_method = ''POST'',
                       url = task_url d,
                       content_type = ''application/json'',
                       authorization = ''bearer '' @ id_token,
                       body_job_name = jn,
                       schedule_time = utcnow d\<rparr>
              in case create_task d parent t of
                   Inl e \<Rightarrow> (Some (''Failure: Task not created for BQ Job - '' @ jn), queue)
                 | Inr response_name \<Rightarrow>
                     (Some (''Success: Task created for BQ Job - '' @ jn),
                      queue @ [(parent, t)]))))"

text \<open>
  \<open>schedule_objects\<close> runs one call per element of \<open>PULL_DICT\<close> on the executor and
  waits for all of them. The calls share nothing but the queue, and the model runs them
  in list order; the results of \<open>gather\<close> are dropped by the source.
\<close>

fun run_all ::
  "denv \<Rightarrow> string list \<Rightarrow> (string \<times> task) list \<Rightarrow> (string \<times> task) list" where
  "run_all d [] queue = queue"
| "run_all d (jn # jns) queue = run_all d jns (snd (add_object_task_to_queue d jn queue))"

definition schedule_objects ::
  "denv \<Rightarrow> (string \<times> task) list \<Rightarrow> string \<times> (string \<times> task) list" where
  "schedule_objects d queue = (''All object pulls queued'', run_all d (PULL_DICT d) queue)"

definition bq_start_extraction ::
  "denv \<Rightarrow> (string \<times> task) list \<Rightarrow> string \<times> (string \<times> task) list" where
  "bq_start_extraction d queue = schedule_objects d queue"

section \<open>Concrete scenarios\<close>

text \<open>
  One job, \<open>orders\<close>, whose watermark is at second 1000. Three objects are listed under
  its prefix: one a minute older than the watermark, one within the watermark's second,
  one two minutes newer. The run starts ten minutes after the watermark.
\<close>

definition orders_config :: config where
  "orders_config =
     \<lparr>cfg_blob_prefix = Some ''orders/'',
      cfg_schema_file_location = Some None,
      cfg_storage_bucket = Some ''lake'',
      cfg_destination_table_id = Some ''shop.orders'',
      cfg_file_type = Some ''json'',
      cfg_hive_partitioning = None,
      cfg_create_behavior = Some ''CREATE_IF_NEEDED'',
      cfg_write_behavior = Some ''WRITE_APPEND'',
      cfg_extra_kwargs = None\<rparr>"

definition orders_blobs :: "blob list" where
  "orders_blobs =
     [\<lparr>name = ''orders/old.json'', updated = 940000000\<rparr>,
      \<lparr>name = ''orders/same.json'', updated = 1000999999\<rparr>,
      \<lparr>name = ''orders/new.json'', updated = 1120000000\<rparr>]"

definition cloud :: env where
  "cloud =
     \<lparr>utcnow_at_start = 1600000000,
      utcnow_at_stamp = 1600000007,
      config_json = Content [''orders'' \<mapsto> orders_config],
      schema_json = (\<lambda>path. NoBlob),
      CreateDisposition = (\<lambda>s. s = ''CREATE_IF_NEEDED'' \<or> s = ''CREATE_NEVER''),
      WriteDisposition =
        (\<lambda>s. s = ''WRITE_APPEND'' \<or> s = ''WRITE_TRUNCATE'' \<or> s = ''WRITE_EMPTY''),
      storage_list_blobs = (\<lambda>bucket prefix. Inr orders_blobs),
      load_table_from_uri = (\<lambda>job. Inr (42, 1))\<rparr>"

definition orders_job :: job where
  "orders_job =
     \<lparr>job_blob_prefix = ''orders/'',
      job_schema_file_location = None,
      job_storage_bucket = ''lake'',
      job_destination_table_id = ''shop.orders'',
      job_file_type = ''json'',
      job_hive_partitioning = None,
      job_create_behavior = Some ''CREATE_IF_NEEDED'',
      job_write_behavior = Some ''WRITE_APPEND'',
      job_extra_kwargs = []\<rparr>"

definition orders_args :: "uris \<Rightarrow> load_args" where
  "orders_args u =
     \<lparr>list_file_names = u,
      schema = None,
      file_type = ''json'',
      destination_table_id = ''shop.orders'',
      hive_partitioning = None,
      create_behavior = Some ''CREATE_IF_NEEDED'',
      write_behavior = Some ''WRITE_APPEND'',
      kwargs = []\<rparr>"

definition never_run :: world where
  "never_run = \<lparr>db = \<lparr>entities = Map.empty, puts = []\<rparr>, load_calls = []\<rparr>"

definition ran_at :: "datetime \<Rightarrow> datetime \<Rightarrow> world" where
  "ran_at watermark attempt =
     \<lparr>db = \<lparr>entities = [''orders'' \<mapsto> [''last_modified_time'' \<mapsto> watermark,
                                          ''last_attempted_grab'' \<mapsto> attempt]],
             puts = []\<rparr>,
      load_calls = []\<rparr>"

definition orders_request :: "bool option \<Rightarrow> request" where
  "orders_request b = \<lparr>job_name = Some ''orders'', backfill = b\<rparr>"

text \<open>Variants: the load job fails; nothing new is listed; a bad disposition; a bad file type.\<close>

definition cloud_failing :: env where
  "cloud_failing = cloud\<lparr>load_table_from_uri := (\<lambda>job. Inl (ServiceError ''quota exceeded''))\<rparr>"

definition cloud_quiet :: env where
  "cloud_quiet = cloud\<lparr>storage_list_blobs := (\<lambda>bucket prefix. Inr (take 2 orders_blobs))\<rparr>"

definition cloud_bad_create :: env where
  "cloud_bad_create =
     cloud\<lparr>config_json :=
             Content [''orders'' \<mapsto> orders_config\<lparr>cfg_create_behavior := Some ''CREATE_SOMETIMES''\<rparr>]\<rparr>"

definition cloud_xml :: env where
  "cloud_xml =
     cloud\<lparr>config_json := Content [''orders'' \<mapsto> orders_config\<lparr>cfg_file_type := Some ''xml''\<rparr>]\<rparr>"

definition queue_env :: denv where
  "queue_env =
     \<lparr>PROJECT = ''p'',
      QUEUE_LOCATION = ''us-central1'',
      QUEUE_NAME = ''q'',
      CONFIG_JOB_NAMES = ''orders'',
      utcnow = 0,
      fetch_id_token = (\<lambda>audience. Inr ''token''),
      create_task = (\<lambda>parent t. Inr ''task'')\<rparr>"

section \<open>Facts about the store and the three blocks\<close>

lemma stored_SomeD:
  "stored w jn f = Some v \<Longrightarrow> \<exists>e. entities (db w) jn = Some e \<and> e f = Some v"
  by (simp add: stored_def get_entity_def split: option.splits)

lemma stored_load_calls_update [simp]:
  "stored (w\<lparr>load_calls := x\<rparr>) jn f = stored w jn f"
  by (simp add: stored_def)

lemma stored_db_same [simp]: "stored (w\<lparr>db := db w\<rparr>) jn f = stored w jn f"
  by (simp add: stored_def)

lemma entities_set_entity_item:
  "entities (snd (set_entity_item jn k v d)) jn' =
     (if jn' = jn
      then Some ((case entities d jn of None \<Rightarrow> Map.empty | Some e \<Rightarrow> e)(k \<mapsto> v))
      else entities d jn')"
  by (simp add: set_entity_item_def get_entity_def Let_def)

lemma stored_after_set:
  "stored (w\<lparr>db := snd (set_entity_item jn k v d)\<rparr>) jn f =
     (if f = k then Some v else stored (w\<lparr>db := d\<rparr>) jn f)"
  by (simp add: stored_def get_entity_def entities_set_entity_item split: option.split)

lemma resolve_job_not_string:
  "resolve_job env jn = Inl x \<Longrightarrow> x \<noteq> Inr (RStr s)"
  by (auto simp add: resolve_job_def split: sum.splits option.splits if_splits)

lemma accepted_run_not_instruction:
  "fst (accepted_run env jn j t lmt b w)
     \<noteq> Inr (RStr ''Please include job_name in request json.'')"
  by (simp add: accepted_run_def Let_def split: sum.split option.split)

lemma accepted_run_stamp:
  "stored (snd (accepted_run env jn j t lmt b w)) jn ''last_attempted_grab''
     = Some (utcnow_at_stamp env)"
  by (simp add: accepted_run_def Let_def stored_after_set split: sum.split option.split)

lemma accepted_run_backfill_loader:
  "(\<exists>e. fst (accepted_run env jn j t lmt True w) = Inl e
        \<and> load_calls (snd (accepted_run env jn j t lmt True w)) = load_calls w)
   \<or> (\<exists>a. load_calls (snd (accepted_run env jn j t lmt True w)) = load_calls w @ [a]
        \<and> list_file_names a
            = Pattern (''gs://'' @ job_storage_bucket j @ ''/'' @ job_blob_prefix j @ ''*''))"
  by (simp add: accepted_run_def Let_def split: sum.split option.split)

text \<open>
  A run that has called the loader is an accepted run, and its end is decided by what the
  loader did.
\<close>

lemma accepted_run_loaded:
  assumes "load_calls (snd (accepted_run env jn j t lmt b w)) = load_calls w @ [a]"
  shows "case load_files_to_biquery env a of
           Inl e \<Rightarrow> accepted_run env jn j t lmt b w =
                      (Inr RNone,
                       w\<lparr>db := snd (set_entity_item jn ''last_attempted_grab''
                                      (utcnow_at_stamp env) (db w)),
                         load_calls := load_calls w @ [a]\<rparr>)
         | Inr r \<Rightarrow> accepted_run env jn j t lmt b w =
                      (Inr (RStr (''Success for '' @ jn)),
                       w\<lparr>db := snd (set_entity_item jn ''last_modified_time'' t
                                      (snd (set_entity_item jn ''last_attempted_grab''
                                              (utcnow_at_stamp env) (db w)))),
                         load_calls := load_calls w @ [a]\<rparr>)"
  using assms
  by (auto simp add: accepted_run_def Let_def split: sum.splits option.splits if_splits)

lemma start_file_load_loaded:
  assumes "load_calls (snd (start_file_load env (Some rq) w)) = load_calls w @ [a]"
      and "job_name rq = Some jn"
  shows "\<exists>j lmt b. start_file_load env (Some rq) w
                     = accepted_run env jn j (utcnow_at_start env) lmt b w"
  using assms
  by (auto simp add: start_file_load_def Let_def split: sum.splits option.splits if_splits)

text \<open>
  With both fields stored, the last attempt at least five minutes old and no backfill
  asked for, the run is accepted in incremental mode, and the stored watermark is what
  \<open>list_blobs\<close> gets as \<open>tsAfter\<close>.
\<close>

lemma incremental_run_is_accepted:
  assumes "job_name rq = Some jn"
      and "resolve_job env jn = Inr j"
      and "stored w jn ''last_modified_time'' = Some m"
      and "stored w jn ''last_attempted_grab'' = Some a"
      and "a \<le> utcnow_at_start env - five_minutes"
      and "backfill rq \<noteq> Some True"
  shows "start_file_load env (Some rq) w =
           accepted_run env jn j (utcnow_at_start env) (Some m) False w"
proof -
  obtain e where e: "entities (db w) jn = Some e" "e ''last_modified_time'' = Some m"
    using stored_SomeD [OF assms(3)] by blast
  obtain e' where e': "entities (db w) jn = Some e'" "e' ''last_attempted_grab'' = Some a"
    using stored_SomeD [OF assms(4)] by blast
  from e e' have lag: "e ''last_attempted_grab'' = Some a" by simp
  from assms(6) have flag: "(case backfill rq of None \<Rightarrow> False | Some b \<Rightarrow> b) = False"
    by (cases "backfill rq") auto
  show ?thesis
    using assms(1,2,5) e lag flag
    by (simp add: start_file_load_def Let_def get_entity_def get_last_modified_time_def)
qed

text \<open>From the epoch on, \<open>int_timestamp\<close> is the whole second a time lies in.\<close>

lemma int_timestamp_whole_seconds: "0 \<le> t \<Longrightarrow> int_timestamp t = t div 1000000"
  by (simp add: int_timestamp_def)

lemma list_blobs_loop_filter:
  "list_blobs_loop b (Some ts) blobs acc =
     Inr (acc @ map (\<lambda>x. ''gs://'' @ b @ ''/'' @ name x)
                  (filter (\<lambda>x. int_timestamp ts < int_timestamp (updated x)) blobs))"
  by (induction blobs arbitrary: acc) auto

section \<open>The scenarios, evaluated\<close>

lemmas scenario_defs =
  orders_config_def orders_blobs_def cloud_def orders_job_def orders_args_def never_run_def
  ran_at_def orders_request_def cloud_failing_def cloud_quiet_def cloud_bad_create_def
  cloud_xml_def

lemmas run_defs =
  start_file_load_def resolve_job_def accepted_run_def get_config_def get_schema_def
  list_blobs_def load_files_to_biquery_def submit_load_def get_entity_def
  get_last_modified_time_def set_entity_item_def int_timestamp_def five_minutes_def
  stored_def Let_def

lemma cloud_resolves: "resolve_job cloud ''orders'' = Inr orders_job"
  by (simp add: scenario_defs run_defs)

lemma ran_at_stored:
  "stored (ran_at m a) ''orders'' ''last_modified_time'' = Some m"
  "stored (ran_at m a) ''orders'' ''last_attempted_grab'' = Some a"
  by (simp_all add: ran_at_def stored_def get_entity_def)

lemma never_run_stored: "stored never_run jn f = None"
  by (simp add: never_run_def stored_def get_entity_def)

lemma incremental_run_calls:
  "load_calls (snd (start_file_load cloud (Some (orders_request None))
                      (ran_at 1000000000 1000000000)))
     = load_calls (ran_at 1000000000 1000000000)
         @ [orders_args (Files [''gs://lake/orders/new.json''])]"
  by (simp add: scenario_defs run_defs)

lemma backfill_run_calls:
  "load_calls (snd (start_file_load cloud (Some (orders_request (Some False))) never_run))
     = load_calls never_run @ [orders_args (Pattern ''gs://lake/orders/*'')]"
  by (simp add: scenario_defs run_defs)

lemma cloud_loads: "load_files_to_biquery cloud (orders_args u) = Inr (42, 1)"
  by (simp add: scenario_defs run_defs)

lemma failing_run_calls:
  "load_calls (snd (start_file_load cloud_failing (Some (orders_request None))
                      (ran_at 1000000000 1000000000)))
     = load_calls (ran_at 1000000000 1000000000)
         @ [orders_args (Files [''gs://lake/orders/new.json''])]"
  by (simp add: scenario_defs run_defs)

lemma cloud_failing_loads:
  "load_files_to_biquery cloud_failing (orders_args u) = Inl (ServiceError ''quota exceeded'')"
  by (simp add: scenario_defs run_defs)

lemma cloud_quiet_resolves: "resolve_job cloud_quiet ''orders'' = Inr orders_job"
  by (simp add: scenario_defs run_defs)

lemma cloud_quiet_selects:
  "list_blobs cloud_quiet (job_storage_bucket orders_job) (job_blob_prefix orders_job)
     (Some 1000000000) = Inr []"
  by (simp add: scenario_defs run_defs)

lemma cloud_bad_create_config:
  "get_config cloud_bad_create ''orders''
     = Inr (orders_config\<lparr>cfg_create_behavior := Some ''CREATE_SOMETIMES''\<rparr>)"
  by (simp add: scenario_defs run_defs)

section \<open>The claims\<close>

text \<open>
  C1. When the job's record has both \<open>last_modified_time\<close> and \<open>last_attempted_grab\<close>
  and the last attempt is later than the start of the run minus five minutes, the call
  changes nothing: the world after is the world before, so there is no write to the
  store and no call of the loader. It returns \<open>None\<close>, unless fetching or validating
  the configuration has ended the call before the state was read.
\<close>

theorem debounce_rejects_without_effect:
  assumes "job_name rq = Some jn"
      and "stored w jn ''last_modified_time'' = Some m"
      and "stored w jn ''last_attempted_grab'' = Some a"
      and "utcnow_at_start env - five_minutes < a"
  shows "snd (start_file_load env (Some rq) w) = w \<and>
         fst (start_file_load env (Some rq) w) =
           (case resolve_job env jn of Inl early \<Rightarrow> early | Inr j \<Rightarrow> Inr RNone)"
proof -
  obtain e where e: "entities (db w) jn = Some e" "e ''last_modified_time'' = Some m"
    using stored_SomeD [OF assms(2)] by blast
  obtain e' where e': "entities (db w) jn = Some e'" "e' ''last_attempted_grab'' = Some a"
    using stored_SomeD [OF assms(3)] by blast
  from e e' have "e ''last_attempted_grab'' = Some a" by simp
  with e assms(1,4) show ?thesis
    by (simp add: start_file_load_def Let_def get_entity_def get_last_modified_time_def
          split: sum.split)
qed

theorem debounce_rejects_without_effect_witness:
  "job_name (orders_request None) = Some ''orders''
   \<and> stored (ran_at 1000000000 1480000000) ''orders'' ''last_modified_time'' = Some 1000000000
   \<and> stored (ran_at 1000000000 1480000000) ''orders'' ''last_attempted_grab'' = Some 1480000000
   \<and> utcnow_at_start cloud - five_minutes < 1480000000
   \<and> snd (start_file_load cloud (Some (orders_request None)) (ran_at 1000000000 1480000000))
       = ran_at 1000000000 1480000000
   \<and> fst (start_file_load cloud (Some (orders_request None)) (ran_at 1000000000 1480000000))
       = Inr RNone"
proof -
  have h1: "job_name (orders_request None) = Some ''orders''"
    by (simp add: orders_request_def)
  have h2: "stored (ran_at 1000000000 1480000000) ''orders'' ''last_modified_time''
              = Some 1000000000"
    by (rule ran_at_stored)
  have h3: "stored (ran_at 1000000000 1480000000) ''orders'' ''last_attempted_grab''
              = Some 1480000000"
    by (rule ran_at_stored)
  have h4: "utcnow_at_start cloud - five_minutes < 1480000000"
    by (simp add: cloud_def five_minutes_def)
  from debounce_rejects_without_effect [OF h1 h2 h3 h4] h1 h2 h3 h4 show ?thesis
    by (simp add: cloud_resolves)
qed

text \<open>
  C2. When the job has no record, or its record lacks \<open>last_modified_time\<close> or
  \<open>last_attempted_grab\<close>, and the configuration resolves, the call is the accepted run
  with the backfill flag set, whatever the request's flag and whatever the age of an
  attempt stamp that is there: the attempt is stamped, and the loader, if the schema
  could be fetched, is called with the wildcard over bucket and prefix.
\<close>

theorem missing_state_forces_backfill:
  assumes "job_name rq = Some jn"
      and "resolve_job env jn = Inr j"
      and "stored w jn ''last_modified_time'' = None
           \<or> stored w jn ''last_attempted_grab'' = None"
  shows "start_file_load env (Some rq) w
           = accepted_run env jn j (utcnow_at_start env)
               (stored w jn ''last_modified_time'') True w
         \<and> stored (snd (start_file_load env (Some rq) w)) jn ''last_attempted_grab''
             = Some (utcnow_at_stamp env)
         \<and> ((\<exists>e. fst (start_file_load env (Some rq) w) = Inl e
                  \<and> load_calls (snd (start_file_load env (Some rq) w)) = load_calls w)
            \<or> (\<exists>a. load_calls (snd (start_file_load env (Some rq) w)) = load_calls w @ [a]
                  \<and> list_file_names a
                      = Pattern (''gs://'' @ job_storage_bucket j @ ''/''
                                   @ job_blob_prefix j @ ''*'')))"
proof -
  have run: "start_file_load env (Some rq) w
               = accepted_run env jn j (utcnow_at_start env)
                   (stored w jn ''last_modified_time'') True w"
    using assms
    by (auto simp add: start_file_load_def Let_def stored_def get_last_modified_time_def
          split: option.splits)
  show ?thesis
    unfolding run
    using accepted_run_stamp accepted_run_backfill_loader by blast
qed

theorem missing_state_forces_backfill_witness:
  "job_name (orders_request (Some False)) = Some ''orders''
   \<and> resolve_job cloud ''orders'' = Inr orders_job
   \<and> stored never_run ''orders'' ''last_modified_time'' = None
   \<and> start_file_load cloud (Some (orders_request (Some False))) never_run
       = accepted_run cloud ''orders'' orders_job (utcnow_at_start cloud) None True never_run
   \<and> stored (snd (start_file_load cloud (Some (orders_request (Some False))) never_run))
        ''orders'' ''last_attempted_grab'' = Some 1600000007
   \<and> load_calls (snd (start_file_load cloud (Some (orders_request (Some False))) never_run))
       = [orders_args (Pattern ''gs://lake/orders/*'')]"
proof -
  have h1: "job_name (orders_request (Some False)) = Some ''orders''"
    by (simp add: orders_request_def)
  have h3: "stored never_run ''orders'' ''last_modified_time'' = None"
    by (rule never_run_stored)
  then have h3': "stored never_run ''orders'' ''last_modified_time'' = None
                  \<or> stored never_run ''orders'' ''last_attempted_grab'' = None"
    by simp
  note t = missing_state_forces_backfill [OF h1 cloud_resolves h3']
  have c1: "start_file_load cloud (Some (orders_request (Some False))) never_run
              = accepted_run cloud ''orders'' orders_job (utcnow_at_start cloud) None True
                  never_run"
    using t [THEN conjunct1] by (simp add: h3)
  have c2: "stored (snd (start_file_load cloud (Some (orders_request (Some False))) never_run))
              ''orders'' ''last_attempted_grab'' = Some 1600000007"
    using t [THEN conjunct2, THEN conjunct1] by (simp add: cloud_def)
  have c3: "load_calls (snd (start_file_load cloud (Some (orders_request (Some False)))
                               never_run))
              = [orders_args (Pattern ''gs://lake/orders/*'')]"
    using backfill_run_calls by (simp add: never_run_def)
  show ?thesis
    by (intro conjI h1 cloud_resolves h3 c1 c2 c3)
qed

text \<open>
  C4. \<open>list_blobs\<close> returns, in listing order, the URIs of exactly the listed objects
  whose update time in whole seconds is greater than the watermark in whole seconds.
  Every such object is in the result; and, object names being distinct as they are in a
  bucket listing, an object is left out when its whole second is not greater, in
  particular when it is the watermark's own second.
\<close>

theorem list_blobs_selects_strictly_newer_seconds:
  assumes "storage_list_blobs env bucket prefix = Inr blobs"
  shows "\<exists>sel. list_blobs env bucket prefix (Some ts) = Inr sel
           \<and> sel = map (\<lambda>x. ''gs://'' @ bucket @ ''/'' @ name x)
                     (filter (\<lambda>x. int_timestamp ts < int_timestamp (updated x)) blobs)
           \<and> (\<forall>x \<in> set blobs. int_timestamp ts < int_timestamp (updated x)
                 \<longrightarrow> ''gs://'' @ bucket @ ''/'' @ name x \<in> set sel)
           \<and> (distinct (map name blobs) \<longrightarrow>
                (\<forall>x \<in> set blobs. int_timestamp (updated x) \<le> int_timestamp ts
                   \<longrightarrow> ''gs://'' @ bucket @ ''/'' @ name x \<notin> set sel))"
proof -
  let ?uri = "\<lambda>x. ''gs://'' @ bucket @ ''/'' @ name x"
  let ?new = "\<lambda>x. int_timestamp ts < int_timestamp (updated x)"
  have eq: "list_blobs env bucket prefix (Some ts) = Inr (map ?uri (filter ?new blobs))"
    using assms by (simp add: list_blobs_def list_blobs_loop_filter)
  have excl: "?uri x \<notin> set (map ?uri (filter ?new blobs))"
    if d: "distinct (map name blobs)" and x: "x \<in> set blobs"
      and old: "int_timestamp (updated x) \<le> int_timestamp ts" for x
  proof
    assume "?uri x \<in> set (map ?uri (filter ?new blobs))"
    then obtain y where y: "y \<in> set blobs" "?new y" "?uri x = ?uri y" by auto
    from y(3) have "name x = name y" by simp
    with d x y(1) have "x = y" by (meson distinct_map inj_onD)
    with old y(2) show False by simp
  qed
  show ?thesis
    using eq excl by auto
qed

theorem list_blobs_selects_strictly_newer_seconds_witness:
  "storage_list_blobs cloud ''lake'' ''orders/'' = Inr orders_blobs
   \<and> distinct (map name orders_blobs)
   \<and> int_timestamp 1000999999 = int_timestamp 1000000000
   \<and> list_blobs cloud ''lake'' ''orders/'' (Some 1000000000)
       = Inr [''gs://lake/orders/new.json'']"
proof -
  have h: "storage_list_blobs cloud ''lake'' ''orders/'' = Inr orders_blobs"
    by (simp add: cloud_def)
  have d: "distinct (map name orders_blobs)"
    by (simp add: orders_blobs_def)
  have s: "int_timestamp 1000999999 = int_timestamp 1000000000"
    by (simp add: int_timestamp_def)
  from list_blobs_selects_strictly_newer_seconds [OF h, of 1000000000]
  have r: "list_blobs cloud ''lake'' ''orders/'' (Some 1000000000)
             = Inr [''gs://lake/orders/new.json'']"
    by (auto simp add: orders_blobs_def int_timestamp_def)
  show ?thesis
    by (intro conjI h d s r)
qed

text \<open>
  C5. When a run has called the loader and the loader has returned, whether the files
  were a list (incremental) or the wildcard (backfill), the function returns
  \<open>Success for\<close> the job and \<open>last_modified_time\<close> is the clock reading taken at the
  start of the call.
\<close>

theorem success_commits_run_start_time:
  assumes "job_name rq = Some jn"
      and "load_calls (snd (start_file_load env (Some rq) w)) = load_calls w @ [a]"
      and "load_files_to_biquery env a = Inr r"
  shows "fst (start_file_load env (Some rq) w) = Inr (RStr (''Success for '' @ jn))
         \<and> stored (snd (start_file_load env (Some rq) w)) jn ''last_modified_time''
             = Some (utcnow_at_start env)"
proof -
  obtain j lmt b where run:
    "start_file_load env (Some rq) w = accepted_run env jn j (utcnow_at_start env) lmt b w"
    using start_file_load_loaded [OF assms(2,1)] by blast
  from assms(2)
  have "load_calls (snd (accepted_run env jn j (utcnow_at_start env) lmt b w))
          = load_calls w @ [a]"
    by (simp add: run)
  from accepted_run_loaded [OF this] assms(3) show ?thesis
    by (simp add: run stored_after_set)
qed

theorem success_commits_run_start_time_witness:
  "(load_calls (snd (start_file_load cloud (Some (orders_request None))
                       (ran_at 1000000000 1000000000)))
      = load_calls (ran_at 1000000000 1000000000)
          @ [orders_args (Files [''gs://lake/orders/new.json''])]
    \<and> load_files_to_biquery cloud (orders_args (Files [''gs://lake/orders/new.json'']))
        = Inr (42, 1)
    \<and> fst (start_file_load cloud (Some (orders_request None)) (ran_at 1000000000 1000000000))
        = Inr (RStr ''Success for orders'')
    \<and> stored (snd (start_file_load cloud (Some (orders_request None))
                      (ran_at 1000000000 1000000000)))
         ''orders'' ''last_modified_time'' = Some 1600000000)
   \<and> (load_calls (snd (start_file_load cloud (Some (orders_request (Some False))) never_run))
        = load_calls never_run @ [orders_args (Pattern ''gs://lake/orders/*'')]
      \<and> fst (start_file_load cloud (Some (orders_request (Some False))) never_run)
          = Inr (RStr ''Success for orders'')
      \<and> stored (snd (start_file_load cloud (Some (orders_request (Some False))) never_run))
           ''orders'' ''last_modified_time'' = Some 1600000000)"
proof -
  have h1: "job_name (orders_request b) = Some ''orders''" for b
    by (simp add: orders_request_def)
  note i = success_commits_run_start_time [OF h1 incremental_run_calls cloud_loads]
  note f = success_commits_run_start_time [OF h1 backfill_run_calls cloud_loads]
  have now: "utcnow_at_start cloud = 1600000000" by (simp add: cloud_def)
  have i1: "fst (start_file_load cloud (Some (orders_request None))
                   (ran_at 1000000000 1000000000)) = Inr (RStr ''Success for orders'')"
    using i [THEN conjunct1] by simp
  have i2: "stored (snd (start_file_load cloud (Some (orders_request None))
                           (ran_at 1000000000 1000000000)))
              ''orders'' ''last_modified_time'' = Some 1600000000"
    using i [THEN conjunct2] by (simp add: now)
  have f1: "fst (start_file_load cloud (Some (orders_request (Some False))) never_run)
              = Inr (RStr ''Success for orders'')"
    using f [THEN conjunct1] by simp
  have f2: "stored (snd (start_file_load cloud (Some (orders_request (Some False))) never_run))
              ''orders'' ''last_modified_time'' = Some 1600000000"
    using f [THEN conjunct2] by (simp add: now)
  show ?thesis
    by (intro conjI incremental_run_calls backfill_run_calls cloud_loads i1 i2 f1 f2)
qed

text \<open>
  C6. When a run has called the loader and the loader has raised, the function returns
  \<open>None\<close>, \<open>last_modified_time\<close> is what it was before the call, and
  \<open>last_attempted_grab\<close> is the stamp written before the files were selected.
\<close>

theorem loader_failure_keeps_watermark:
  assumes "job_name rq = Some jn"
      and "load_calls (snd (start_file_load env (Some rq) w)) = load_calls w @ [a]"
      and "load_files_to_biquery env a = Inl e"
  shows "fst (start_file_load env (Some rq) w) = Inr RNone
         \<and> stored (snd (start_file_load env (Some rq) w)) jn ''last_modified_time''
             = stored w jn ''last_modified_time''
         \<and> stored (snd (start_file_load env (Some rq) w)) jn ''last_attempted_grab''
             = Some (utcnow_at_stamp env)"
proof -
  obtain j lmt b where run:
    "start_file_load env (Some rq) w = accepted_run env jn j (utcnow_at_start env) lmt b w"
    using start_file_load_loaded [OF assms(2,1)] by blast
  from assms(2)
  have "load_calls (snd (accepted_run env jn j (utcnow_at_start env) lmt b w))
          = load_calls w @ [a]"
    by (simp add: run)
  from accepted_run_loaded [OF this] assms(3) show ?thesis
    by (simp add: run stored_after_set)
qed

theorem loader_failure_keeps_watermark_witness:
  "load_calls (snd (start_file_load cloud_failing (Some (orders_request None))
                      (ran_at 1000000000 1000000000)))
     = load_calls (ran_at 1000000000 1000000000)
         @ [orders_args (Files [''gs://lake/orders/new.json''])]
   \<and> load_files_to_biquery cloud_failing (orders_args (Files [''gs://lake/orders/new.json'']))
       = Inl (ServiceError ''quota exceeded'')
   \<and> fst (start_file_load cloud_failing (Some (orders_request None))
             (ran_at 1000000000 1000000000)) = Inr RNone
   \<and> stored (snd (start_file_load cloud_failing (Some (orders_request None))
                     (ran_at 1000000000 1000000000)))
        ''orders'' ''last_modified_time'' = Some 1000000000
   \<and> stored (snd (start_file_load cloud_failing (Some (orders_request None))
                     (ran_at 1000000000 1000000000)))
        ''orders'' ''last_attempted_grab'' = Some 1600000007"
proof -
  have h1: "job_name (orders_request None) = Some ''orders''"
    by (simp add: orders_request_def)
  note t = loader_failure_keeps_watermark [OF h1 failing_run_calls cloud_failing_loads]
  have c1: "fst (start_file_load cloud_failing (Some (orders_request None))
                   (ran_at 1000000000 1000000000)) = Inr RNone"
    using t [THEN conjunct1] .
  have c2: "stored (snd (start_file_load cloud_failing (Some (orders_request None))
                           (ran_at 1000000000 1000000000)))
              ''orders'' ''last_modified_time'' = Some 1000000000"
    using t [THEN conjunct2, THEN conjunct1] by (simp add: ran_at_stored)
  have c3: "stored (snd (start_file_load cloud_failing (Some (orders_request None))
                           (ran_at 1000000000 1000000000)))
              ''orders'' ''last_attempted_grab'' = Some 1600000007"
    using t [THEN conjunct2, THEN conjunct2] by (simp add: cloud_failing_def cloud_def)
  show ?thesis
    by (intro conjI failing_run_calls cloud_failing_loads c1 c2 c3)
qed

text \<open>
  C7. An accepted run in incremental mode (both fields stored, the last attempt at least
  five minutes old, no backfill asked for) whose selection is empty returns the
  "no new blobs" string for the job, calls the loader not at all, has stamped
  \<open>last_attempted_grab\<close>, and leaves the watermark where it was.
\<close>

theorem empty_selection_skips_loader:
  assumes "job_name rq = Some jn"
      and "resolve_job env jn = Inr j"
      and "stored w jn ''last_modified_time'' = Some m"
      and "stored w jn ''last_attempted_grab'' = Some a"
      and "a \<le> utcnow_at_start env - five_minutes"
      and "backfill rq \<noteq> Some True"
      and "list_blobs env (job_storage_bucket j) (job_blob_prefix j) (Some m) = Inr []"
  shows "fst (start_file_load env (Some rq) w)
           = Inr (RStr (''There are no new blobs to load for '' @ jn))
         \<and> load_calls (snd (start_file_load env (Some rq) w)) = load_calls w
         \<and> stored (snd (start_file_load env (Some rq) w)) jn ''last_attempted_grab''
             = Some (utcnow_at_stamp env)
         \<and> stored (snd (start_file_load env (Some rq) w)) jn ''last_modified_time'' = Some m"
proof -
  have run: "start_file_load env (Some rq) w =
               accepted_run env jn j (utcnow_at_start env) (Some m) False w"
    by (rule incremental_run_is_accepted [OF assms(1-6)])
  show ?thesis
    using assms(7,3) by (simp add: run accepted_run_def Let_def stored_after_set)
qed

theorem empty_selection_skips_loader_witness:
  "job_name (orders_request (Some False)) = Some ''orders''
   \<and> resolve_job cloud_quiet ''orders'' = Inr orders_job
   \<and> stored (ran_at 1000000000 1000000000) ''orders'' ''last_modified_time'' = Some 1000000000
   \<and> stored (ran_at 1000000000 1000000000) ''orders'' ''last_attempted_grab'' = Some 1000000000
   \<and> 1000000000 \<le> utcnow_at_start cloud_quiet - five_minutes
   \<and> backfill (orders_request (Some False)) \<noteq> Some True
   \<and> list_blobs cloud_quiet (job_storage_bucket orders_job) (job_blob_prefix orders_job)
        (Some 1000000000) = Inr []
   \<and> fst (start_file_load cloud_quiet (Some (orders_request (Some False)))
             (ran_at 1000000000 1000000000))
       = Inr (RStr ''There are no new blobs to load for orders'')
   \<and> load_calls (snd (start_file_load cloud_quiet (Some (orders_request (Some False)))
                         (ran_at 1000000000 1000000000))) = []
   \<and> stored (snd (start_file_load cloud_quiet (Some (orders_request (Some False)))
                     (ran_at 1000000000 1000000000)))
        ''orders'' ''last_attempted_grab'' = Some 1600000007"
proof -
  have h1: "job_name (orders_request (Some False)) = Some ''orders''"
    by (simp add: orders_request_def)
  have h3: "stored (ran_at 1000000000 1000000000) ''orders'' ''last_modified_time''
              = Some 1000000000"
    by (rule ran_at_stored)
  have h4: "stored (ran_at 1000000000 1000000000) ''orders'' ''last_attempted_grab''
              = Some 1000000000"
    by (rule ran_at_stored)
  have h5: "1000000000 \<le> utcnow_at_start cloud_quiet - five_minutes"
    by (simp add: cloud_quiet_def cloud_def five_minutes_def)
  have h6: "backfill (orders_request (Some False)) \<noteq> Some True"
    by (simp add: orders_request_def)
  note t = empty_selection_skips_loader
             [OF h1 cloud_quiet_resolves h3 h4 h5 h6 cloud_quiet_selects]
  have c1: "fst (start_file_load cloud_quiet (Some (orders_request (Some False)))
                   (ran_at 1000000000 1000000000))
              = Inr (RStr ''There are no new blobs to load for orders'')"
    using t [THEN conjunct1] by simp
  have c2: "load_calls (snd (start_file_load cloud_quiet (Some (orders_request (Some False)))
                               (ran_at 1000000000 1000000000))) = []"
    using t [THEN conjunct2, THEN conjunct1] by (simp add: ran_at_def)
  have c3: "stored (snd (start_file_load cloud_quiet (Some (orders_request (Some False)))
                           (ran_at 1000000000 1000000000)))
              ''orders'' ''last_attempted_grab'' = Some 1600000007"
    using t [THEN conjunct2, THEN conjunct2, THEN conjunct1]
    by (simp add: cloud_quiet_def cloud_def)
  show ?thesis
    by (intro conjI h1 cloud_quiet_resolves h3 h4 h5 h6 cloud_quiet_selects c1 c2 c3)
qed

text \<open>
  C8, as stated, fails for \<open>file_type\<close>: the value is looked at only inside the loader,
  after the attempt has been stamped, and the \<open>ValueError\<close> is caught by the handler
  that returns \<open>None\<close>. Here a first run with \<open>file_type = xml\<close> returns \<open>None\<close> and
  has written \<open>last_attempted_grab\<close>.
\<close>

theorem bad_file_type_counterexample:
  "get_config cloud_xml ''orders'' = Inr (orders_config\<lparr>cfg_file_type := Some ''xml''\<rparr>)
   \<and> ''xml'' \<noteq> ''json'' \<and> ''xml'' \<noteq> ''csv''
   \<and> fst (start_file_load cloud_xml (Some (orders_request None)) never_run) = Inr RNone
   \<and> stored never_run ''orders'' ''last_attempted_grab'' = None
   \<and> stored (snd (start_file_load cloud_xml (Some (orders_request None)) never_run))
        ''orders'' ''last_attempted_grab'' = Some 1600000007"
  by (simp add: scenario_defs run_defs)

text \<open>
  C8, amended. When the job's configuration carries a \<open>create_behavior\<close> or a
  \<open>write_behavior\<close> that is not an attribute of its disposition class, the call ends
  before the persisted state is read: the world is unchanged, and the caller gets the
  \<open>AttributeError\<close> of an offending value as the returned object (or the \<open>KeyError\<close>
  of a missing key, raised before the dispositions are looked at).
\<close>

theorem bad_disposition_is_returned_before_any_write:
  assumes "job_name rq = Some jn"
      and "get_config env jn = Inr c"
      and "(\<exists>s. cfg_create_behavior c = Some s \<and> \<not> CreateDisposition env s)
           \<or> (\<exists>s. cfg_write_behavior c = Some s \<and> \<not> WriteDisposition env s)"
  shows "snd (start_file_load env (Some rq) w) = w
         \<and> ((\<exists>k. fst (start_file_load env (Some rq) w) = Inl (KeyError k))
            \<or> (\<exists>s. fst (start_file_load env (Some rq) w) = Inr (RErr (AttributeError s))
                   \<and> (cfg_create_behavior c = Some s \<and> \<not> CreateDisposition env s
                      \<or> cfg_write_behavior c = Some s \<and> \<not> WriteDisposition env s)))"
proof -
  have "\<exists>early. resolve_job env jn = Inl early \<and>
          ((\<exists>k. early = Inl (KeyError k))
            \<or> (\<exists>s. early = Inr (RErr (AttributeError s))
                   \<and> (cfg_create_behavior c = Some s \<and> \<not> CreateDisposition env s
                      \<or> cfg_write_behavior c = Some s \<and> \<not> WriteDisposition env s)))"
    using assms(2,3)
    by (auto simp add: resolve_job_def split: option.splits)
  then show ?thesis
    using assms(1) by (auto simp add: start_file_load_def Let_def)
qed

theorem bad_disposition_is_returned_before_any_write_witness:
  "job_name (orders_request None) = Some ''orders''
   \<and> get_config cloud_bad_create ''orders''
       = Inr (orders_config\<lparr>cfg_create_behavior := Some ''CREATE_SOMETIMES''\<rparr>)
   \<and> \<not> CreateDisposition cloud_bad_create ''CREATE_SOMETIMES''
   \<and> snd (start_file_load cloud_bad_create (Some (orders_request None))
             (ran_at 1000000000 1000000000)) = ran_at 1000000000 1000000000
   \<and> fst (start_file_load cloud_bad_create (Some (orders_request None))
             (ran_at 1000000000 1000000000))
       = Inr (RErr (AttributeError ''CREATE_SOMETIMES''))"
proof -
  have h1: "job_name (orders_request None) = Some ''orders''"
    by (simp add: orders_request_def)
  have bad: "\<not> CreateDisposition cloud_bad_create ''CREATE_SOMETIMES''"
    by (simp add: cloud_bad_create_def cloud_def)
  have h3: "(\<exists>s. cfg_create_behavior
                   (orders_config\<lparr>cfg_create_behavior := Some ''CREATE_SOMETIMES''\<rparr>) = Some s
                 \<and> \<not> CreateDisposition cloud_bad_create s)
            \<or> (\<exists>s. cfg_write_behavior
                     (orders_config\<lparr>cfg_create_behavior := Some ''CREATE_SOMETIMES''\<rparr>) = Some s
                   \<and> \<not> WriteDisposition cloud_bad_create s)"
    using bad by simp
  note t = bad_disposition_is_returned_before_any_write
             [OF h1 cloud_bad_create_config h3, of "ran_at 1000000000 1000000000"]
  have c1: "snd (start_file_load cloud_bad_create (Some (orders_request None))
                   (ran_at 1000000000 1000000000)) = ran_at 1000000000 1000000000"
    using t [THEN conjunct1] .
  have c2: "fst (start_file_load cloud_bad_create (Some (orders_request None))
                   (ran_at 1000000000 1000000000))
              = Inr (RErr (AttributeError ''CREATE_SOMETIMES''))"
    by (simp add: scenario_defs run_defs)
  show ?thesis
    by (intro conjI h1 cloud_bad_create_config bad c1 c2)
qed

theorem set_entity_item_updates_one_field:
  "fst (set_entity_item j k v ds) = True \<and>
   (\<exists>e'. entities (snd (set_entity_item j k v ds)) j = Some e' \<and> e' k = Some v \<and>
     (\<forall>k'. k' \<noteq> k \<longrightarrow> e' k' = (case get_entity ds j of None \<Rightarrow> None | Some e \<Rightarrow> e k')) \<and>
     (get_entity ds j = None \<longrightarrow> dom e' = {k}) \<and>
     puts (snd (set_entity_item j k v ds)) = puts ds @ [(j, e')]) \<and>
   (\<forall>j'. j' \<noteq> j \<longrightarrow> entities (snd (set_entity_item j k v ds)) j' = entities ds j')"
  by (auto simp: set_entity_item_def get_entity_def Let_def split: option.splits)

theorem set_entity_item_updates_one_field_witness:
  "(\<exists>e'. entities (snd (set_entity_item ''orders'' ''last_attempted_grab'' 9
                          (db (ran_at 5 6)))) ''orders'' = Some e'
        \<and> e' ''last_attempted_grab'' = Some 9
        \<and> e' ''last_modified_time'' = Some 5)
   \<and> (\<exists>e'. entities (snd (set_entity_item ''orders'' ''last_attempted_grab'' 9
                            (db never_run))) ''orders'' = Some e'
          \<and> dom e' = {''last_attempted_grab''})"
proof -
  have a: "get_entity (db (ran_at 5 6)) ''orders''
             = Some [''last_modified_time'' \<mapsto> 5, ''last_attempted_grab'' \<mapsto> 6]"
    by (simp add: ran_at_def get_entity_def)
  have b: "get_entity (db never_run) ''orders'' = None"
    by (simp add: never_run_def get_entity_def)
  have ne: "''last_modified_time'' \<noteq> ''last_attempted_grab''" by simp
  note t = set_entity_item_updates_one_field
             [of "''orders''" "''last_attempted_grab''" 9 "db (ran_at 5 6)",
              THEN conjunct2, THEN conjunct1]
  from t obtain e' where
    e1: "entities (snd (set_entity_item ''orders'' ''last_attempted_grab'' 9
                          (db (ran_at 5 6)))) ''orders'' = Some e'"
    and e2: "e' ''last_attempted_grab'' = Some 9"
    and e3: "\<forall>k'. k' \<noteq> ''last_attempted_grab'' \<longrightarrow>
               e' k' = (case get_entity (db (ran_at 5 6)) ''orders'' of
                          None \<Rightarrow> None | Some e \<Rightarrow> e k')"
    by (elim exE conjE) (rule that)
  from e3 [rule_format, OF ne] have e4: "e' ''last_modified_time'' = Some 5"
    by (simp add: a)
  have first: "\<exists>e'. entities (snd (set_entity_item ''orders'' ''last_attempted_grab'' 9
                          (db (ran_at 5 6)))) ''orders'' = Some e'
        \<and> e' ''last_attempted_grab'' = Some 9
        \<and> e' ''last_modified_time'' = Some 5"
    by (intro exI [of _ e'] conjI e1 e2 e4)
  note u = set_entity_item_updates_one_field
             [of "''orders''" "''last_attempted_grab''" 9 "db never_run",
              THEN conjunct2, THEN conjunct1]
  from u obtain e'' where
    f1: "entities (snd (set_entity_item ''orders'' ''last_attempted_grab'' 9
                          (db never_run))) ''orders'' = Some e''"
    and f2: "get_entity (db never_run) ''orders'' = None \<longrightarrow> dom e'' = {''last_attempted_grab''}"
    by (elim exE conjE) (rule that)
  from f2 b have f3: "dom e'' = {''last_attempted_grab''}" by simp
  have second: "\<exists>e'. entities (snd (set_entity_item ''orders'' ''last_attempted_grab'' 9
                            (db never_run))) ''orders'' = Some e'
          \<and> dom e' = {''last_attempted_grab''}"
    by (intro exI [of _ e''] conjI f1 f3)
  show ?thesis
    by (intro conjI first second)
qed

text \<open>
  C10. With a body that is not JSON, \<open>request_json\<close> is \<open>None\<close> and the call raises
  \<open>AttributeError\<close> at \<open>request_json.get\<close>, with nothing changed. The instruction to
  include \<open>job_name\<close> is returned exactly when there is a JSON body without that key.
\<close>

theorem missing_body_raises:
  "start_file_load env None w = (Inl (AttributeError ''get''), w) \<and>
   (fst (start_file_load env r w) = Inr (RStr ''Please include job_name in request json.'')
      \<longleftrightarrow> (\<exists>rq. r = Some rq \<and> job_name rq = None))"
  by (auto simp add: start_file_load_def Let_def accepted_run_not_instruction
        dest: resolve_job_not_string split: option.splits sum.splits if_splits)

theorem missing_body_raises_witness:
  "start_file_load cloud None never_run = (Inl (AttributeError ''get''), never_run)
   \<and> fst (start_file_load cloud (Some \<lparr>job_name = None, backfill = Some True\<rparr>) never_run)
       = Inr (RStr ''Please include job_name in request json.'')
   \<and> fst (start_file_load cloud (Some (orders_request None)) never_run)
       \<noteq> Inr (RStr ''Please include job_name in request json.'')"
proof -
  note t = missing_body_raises [of cloud never_run]
  have c1: "start_file_load cloud None never_run = (Inl (AttributeError ''get''), never_run)"
    using t [of None, THEN conjunct1] .
  have c2: "fst (start_file_load cloud (Some \<lparr>job_name = None, backfill = Some True\<rparr>)
                   never_run)
              = Inr (RStr ''Please include job_name in request json.'')"
    using t [of "Some \<lparr>job_name = None, backfill = Some True\<rparr>", THEN conjunct2] by simp
  have c3: "fst (start_file_load cloud (Some (orders_request None)) never_run)
              \<noteq> Inr (RStr ''Please include job_name in request json.'')"
    using t [of "Some (orders_request None)", THEN conjunct2]
    by (simp add: orders_request_def)
  show ?thesis
    by (intro conjI c1 c2 c3)
qed

section \<open>The dispatcher\<close>

lemma strip_single: "strip [ch] = (if isspace ch then [] else [ch])"
  by (simp add: strip_def)

lemma PULL_DICT_single_characters: "jn \<in> set (PULL_DICT d) \<Longrightarrow> length jn \<le> 1"
  by (auto simp add: PULL_DICT_def strip_single)

lemma add_object_task_names:
  "body_job_name ` snd ` set (snd (add_object_task_to_queue d jn queue))
     \<subseteq> body_job_name ` snd ` set queue \<union> {jn}"
  by (auto simp add: add_object_task_to_queue_def Let_def split: sum.splits)

lemma run_all_names:
  "body_job_name ` snd ` set (run_all d jns queue)
     \<subseteq> body_job_name ` snd ` set queue \<union> set jns"
proof (induction jns arbitrary: queue)
  case Nil
  then show ?case by simp
next
  case (Cons jn jns)
  have "body_job_name ` snd ` set (run_all d (jn # jns) queue)
          \<subseteq> body_job_name ` snd ` set (snd (add_object_task_to_queue d jn queue))
              \<union> set jns"
    using Cons.IH [of "snd (add_object_task_to_queue d jn queue)"] by simp
  also have "\<dots> \<subseteq> (body_job_name ` snd ` set queue \<union> {jn}) \<union> set jns"
    using add_object_task_names [of d jn queue] by blast
  also have "\<dots> = body_job_name ` snd ` set queue \<union> set (jn # jns)"
    by auto
  finally show ?case .
qed

lemma dispatched_names_are_single_characters:
  assumes "(parent, t) \<in> set (snd (bq_start_extraction d []))"
  shows "length (body_job_name t) \<le> 1"
proof -
  from assms have "body_job_name t \<in> body_job_name ` snd ` set (run_all d (PULL_DICT d) [])"
    by (force simp add: bq_start_extraction_def schedule_objects_def)
  with run_all_names [of d "PULL_DICT d" "[]"] have "body_job_name t \<in> set (PULL_DICT d)"
    by auto
  then show ?thesis by (rule PULL_DICT_single_characters)
qed

text \<open>
  C3. The claim does not hold of the code: \<open>PULL_DICT\<close> is built by iterating over the
  string \<open>CONFIG_JOB_NAMES\<close>, so the names handed to \<open>add_object_task_to_queue\<close> are
  its characters. With the one job \<open>orders\<close> configured, six tasks are created, whose
  \<open>job_name\<close> fields are the six letters; no task carries \<open>orders\<close>.
\<close>

theorem dispatcher_enqueues_one_task_per_character:
  "CONFIG_JOB_NAMES queue_env = ''orders''
   \<and> PULL_DICT queue_env = [''o'', ''r'', ''d'', ''e'', ''r'', ''s'']
   \<and> fst (bq_start_extraction queue_env []) = ''All object pulls queued''
   \<and> map (\<lambda>(parent, t). body_job_name t) (snd (bq_start_extraction queue_env []))
       = [''o'', ''r'', ''d'', ''e'', ''r'', ''s'']"
  by (simp add: queue_env_def bq_start_extraction_def schedule_objects_def PULL_DICT_def
        strip_single isspace_def add_object_task_to_queue_def task_url_def queue_path_def
        Let_def)

end
